theory Spec2Isabelle
  imports Complex_Main "HOL-Library.AList" "HOL-Library.List_Lexorder" "HOL-Library.Char_ord"
begin

section \<open>Type descriptors (reflect.Type)\<close>

text \<open>
  The registry and the walker of package humaproto inspect Go types through reflection.
  A type descriptor is modelled by its kind and its structure. A named type carries its
  package path and its name (both empty for an unnamed type); the declaration of a struct
  type (fields, method sets) is looked up in a table of the program's struct types, which
  is how a struct can mention itself. Kinds that the walker never opens (scalars,
  channels, functions, interfaces) are leaves.
\<close>

datatype kind =
    KInvalid | KBool | KInt | KInt8 | KInt16 | KInt32 | KInt64
  | KUint | KUint8 | KUint16 | KUint32 | KUint64 | KUintptr
  | KFloat32 | KFloat64 | KComplex64 | KComplex128
  | KArray | KChan | KFunc | KInterface | KMap | KPtr | KSlice | KString | KStruct
  | KUnsafePointer

datatype leaf =
    LInvalid | LBool | LInt | LInt8 | LInt16 | LInt32 | LInt64
  | LUint | LUint8 | LUint16 | LUint32 | LUint64 | LUintptr
  | LFloat32 | LFloat64 | LComplex64 | LComplex128
  | LChan | LFunc | LInterface | LString | LUnsafePointer

type_synonym tyname = "string \<times> string"

datatype rtype =
    Leaf leaf tyname
  | PtrT rtype
  | SliceT tyname rtype
  | ArrayT tyname nat rtype
  | MapT tyname rtype rtype
  | StructT tyname

fun leafKind :: "leaf \<Rightarrow> kind" where
  "leafKind LInvalid = KInvalid"
| "leafKind LBool = KBool"
| "leafKind LInt = KInt"
| "leafKind LInt8 = KInt8"
| "leafKind LInt16 = KInt16"
| "leafKind LInt32 = KInt32"
| "leafKind LInt64 = KInt64"
| "leafKind LUint = KUint"
| "leafKind LUint8 = KUint8"
| "leafKind LUint16 = KUint16"
| "leafKind LUint32 = KUint32"
| "leafKind LUint64 = KUint64"
| "leafKind LUintptr = KUintptr"
| "leafKind LFloat32 = KFloat32"
| "leafKind LFloat64 = KFloat64"
| "leafKind LComplex64 = KComplex64"
| "leafKind LComplex128 = KComplex128"
| "leafKind LChan = KChan"
| "leafKind LFunc = KFunc"
| "leafKind LInterface = KInterface"
| "leafKind LString = KString"
| "leafKind LUnsafePointer = KUnsafePointer"

fun Kind :: "rtype \<Rightarrow> kind" where
  "Kind (Leaf k n) = leafKind k"
| "Kind (PtrT t) = KPtr"
| "Kind (SliceT n t) = KSlice"
| "Kind (ArrayT n l t) = KArray"
| "Kind (MapT n k t) = KMap"
| "Kind (StructT n) = KStruct"

text \<open>\<open>t.Name()\<close>: the name of a named type, empty for an unnamed one (a pointer type
  here is always unnamed).\<close>

fun Name :: "rtype \<Rightarrow> string" where
  "Name (Leaf k n) = snd n"
| "Name (PtrT t) = []"
| "Name (SliceT n t) = snd n"
| "Name (ArrayT n l t) = snd n"
| "Name (MapT n k t) = snd n"
| "Name (StructT n) = snd n"

text \<open>\<open>t.Elem()\<close> is only called on pointers, slices, arrays and maps.\<close>

fun Elem :: "rtype \<Rightarrow> rtype" where
  "Elem (PtrT t) = t"
| "Elem (SliceT n t) = t"
| "Elem (ArrayT n l t) = t"
| "Elem (MapT n k t) = t"
| "Elem t = t"

fun Len :: "rtype \<Rightarrow> nat" where
  "Len (ArrayT n l t) = l"
| "Len t = 0"

text \<open>registry.go, \<open>deref\<close>: strip every pointer indirection.\<close>

fun deref :: "rtype \<Rightarrow> rtype" where
  "deref (PtrT t) = deref t"
| "deref t = t"

definition uint8T :: rtype where
  "uint8T = Leaf LUint8 ([], ''uint8'')"

definition timeType :: rtype where
  "timeType = StructT (''time'', ''Time'')"

definition ipType :: rtype where
  "ipType = SliceT (''net'', ''IP'') uint8T"

definition ipAddrType :: rtype where
  "ipAddrType = StructT (''net/netip'', ''Addr'')"

definition urlType :: rtype where
  "urlType = StructT (''net/url'', ''URL'')"

definition rawMessageType :: rtype where
  "rawMessageType = SliceT (''encoding/json'', ''RawMessage'') uint8T"

section \<open>Struct declarations\<close>

text \<open>
  A struct tag is modelled after parsing: the list of its key/value pairs, in order.
  \<open>Tag.Lookup\<close> finds the first pair with the key; \<open>Tag.Get\<close> gives the empty string
  when there is none.
\<close>

record sfield =
  fName :: string
  fType :: rtype
  fTag :: "(string \<times> string) list"
  fExported :: bool
  fAnonymous :: bool

record smethod =
  mName :: string
  mOut :: "rtype list"

record sdecl =
  sFields :: "sfield list"
  sMethods :: "smethod list"
  sPtrMethods :: "smethod list"

definition TagLookup :: "sfield \<Rightarrow> string \<Rightarrow> string option" where
  "TagLookup f key = map_of (fTag f) key"

definition TagGet :: "sfield \<Rightarrow> string \<Rightarrow> string" where
  "TagGet f key = (case TagLookup f key of None \<Rightarrow> [] | Some v \<Rightarrow> v)"

section \<open>Schema nodes (huma.Schema)\<close>

text \<open>
  The fields of \<open>huma.Schema\<close> that this package writes. \<open>AdditionalProperties\<close> has Go
  type \<open>any\<close>: unset, a boolean, or a schema pointer (which can be nil). Maps with string
  keys inside a schema are association lists with unique keys (\<open>AList.update\<close>); a nil
  map or slice and an empty one are not told apart. The minimum is a \<open>*float64\<close>; the
  only value the package stores is the constant 0.0.
\<close>

datatype schema = MkSchema
    (Type: string)
    (Nullable: bool)
    (Format: string)
    (ContentEncoding: string)
    (Ref: string)
    (Items: "schema option")
    (MinItems: "nat option")
    (MaxItems: "nat option")
    (Minimum: "real option")
    (Properties: "(string \<times> schema) list")
    (Required: "string list")
    (AdditionalProperties: addl)
    (DependentRequired: "(string \<times> string list) list")
    (OneOf: "schema list")
and addl = AddlNil | AddlBool bool | AddlSchema "schema option"

definition emptySchema :: schema where
  "emptySchema = MkSchema [] False [] [] [] None None None None [] [] AddlNil [] []"

definition set_Type :: "string \<Rightarrow> schema \<Rightarrow> schema" where
  "set_Type v s = MkSchema v (Nullable s) (Format s) (ContentEncoding s) (Ref s) (Items s)
     (MinItems s) (MaxItems s) (Minimum s) (Properties s) (Required s)
     (AdditionalProperties s) (DependentRequired s) (OneOf s)"

definition set_Nullable :: "bool \<Rightarrow> schema \<Rightarrow> schema" where
  "set_Nullable v s = MkSchema (Type s) v (Format s) (ContentEncoding s) (Ref s) (Items s)
     (MinItems s) (MaxItems s) (Minimum s) (Properties s) (Required s)
     (AdditionalProperties s) (DependentRequired s) (OneOf s)"

definition set_Format :: "string \<Rightarrow> schema \<Rightarrow> schema" where
  "set_Format v s = MkSchema (Type s) (Nullable s) v (ContentEncoding s) (Ref s) (Items s)
     (MinItems s) (MaxItems s) (Minimum s) (Properties s) (Required s)
     (AdditionalProperties s) (DependentRequired s) (OneOf s)"

definition set_ContentEncoding :: "string \<Rightarrow> schema \<Rightarrow> schema" where
  "set_ContentEncoding v s = MkSchema (Type s) (Nullable s) (Format s) v (Ref s) (Items s)
     (MinItems s) (MaxItems s) (Minimum s) (Properties s) (Required s)
     (AdditionalProperties s) (DependentRequired s) (OneOf s)"

definition set_Ref :: "string \<Rightarrow> schema \<Rightarrow> schema" where
  "set_Ref v s = MkSchema (Type s) (Nullable s) (Format s) (ContentEncoding s) v (Items s)
     (MinItems s) (MaxItems s) (Minimum s) (Properties s) (Required s)
     (AdditionalProperties s) (DependentRequired s) (OneOf s)"

definition set_Items :: "schema option \<Rightarrow> schema \<Rightarrow> schema" where
  "set_Items v s = MkSchema (Type s) (Nullable s) (Format s) (ContentEncoding s) (Ref s) v
     (MinItems s) (MaxItems s) (Minimum s) (Properties s) (Required s)
     (AdditionalProperties s) (DependentRequired s) (OneOf s)"

definition set_MinItems :: "nat option \<Rightarrow> schema \<Rightarrow> schema" where
  "set_MinItems v s = MkSchema (Type s) (Nullable s) (Format s) (ContentEncoding s) (Ref s)
     (Items s) v (MaxItems s) (Minimum s) (Properties s) (Required s)
     (AdditionalProperties s) (DependentRequired s) (OneOf s)"

definition set_MaxItems :: "nat option \<Rightarrow> schema \<Rightarrow> schema" where
  "set_MaxItems v s = MkSchema (Type s) (Nullable s) (Format s) (ContentEncoding s) (Ref s)
     (Items s) (MinItems s) v (Minimum s) (Properties s) (Required s)
     (AdditionalProperties s) (DependentRequired s) (OneOf s)"

definition set_Minimum :: "real option \<Rightarrow> schema \<Rightarrow> schema" where
  "set_Minimum v s = MkSchema (Type s) (Nullable s) (Format s) (ContentEncoding s) (Ref s)
     (Items s) (MinItems s) (MaxItems s) v (Properties s) (Required s)
     (AdditionalProperties s) (DependentRequired s) (OneOf s)"

definition set_Properties :: "(string \<times> schema) list \<Rightarrow> schema \<Rightarrow> schema" where
  "set_Properties v s = MkSchema (Type s) (Nullable s) (Format s) (ContentEncoding s) (Ref s)
     (Items s) (MinItems s) (MaxItems s) (Minimum s) v (Required s)
     (AdditionalProperties s) (DependentRequired s) (OneOf s)"

definition set_Required :: "string list \<Rightarrow> schema \<Rightarrow> schema" where
  "set_Required v s = MkSchema (Type s) (Nullable s) (Format s) (ContentEncoding s) (Ref s)
     (Items s) (MinItems s) (MaxItems s) (Minimum s) (Properties s) v
     (AdditionalProperties s) (DependentRequired s) (OneOf s)"

definition set_AdditionalProperties :: "addl \<Rightarrow> schema \<Rightarrow> schema" where
  "set_AdditionalProperties v s = MkSchema (Type s) (Nullable s) (Format s) (ContentEncoding s)
     (Ref s) (Items s) (MinItems s) (MaxItems s) (Minimum s) (Properties s) (Required s)
     v (DependentRequired s) (OneOf s)"

definition set_DependentRequired :: "(string \<times> string list) list \<Rightarrow> schema \<Rightarrow> schema" where
  "set_DependentRequired v s = MkSchema (Type s) (Nullable s) (Format s) (ContentEncoding s)
     (Ref s) (Items s) (MinItems s) (MaxItems s) (Minimum s) (Properties s) (Required s)
     (AdditionalProperties s) v (OneOf s)"

definition set_OneOf :: "schema list \<Rightarrow> schema \<Rightarrow> schema" where
  "set_OneOf v s = MkSchema (Type s) (Nullable s) (Format s) (ContentEncoding s)
     (Ref s) (Items s) (MinItems s) (MaxItems s) (Minimum s) (Properties s) (Required s)
     (AdditionalProperties s) (DependentRequired s) v"

text \<open>\<open>&huma.Schema{Ref: ref}\<close>\<close>

definition refSchema :: "string \<Rightarrow> schema" where
  "refSchema ref = set_Ref ref emptySchema"

definition TypeBoolean :: string where "TypeBoolean = ''boolean''"
definition TypeInteger :: string where "TypeInteger = ''integer''"
definition TypeNumber :: string where "TypeNumber = ''number''"
definition TypeString :: string where "TypeString = ''string''"
definition TypeArray :: string where "TypeArray = ''array''"
definition TypeObject :: string where "TypeObject = ''object''"

section \<open>Outcomes\<close>

text \<open>
  A panic of the Go code is an error value. The registry and the walker call each other
  without a syntactic bound, so the registry's \<open>Schema\<close> takes fuel: \<open>Timeout\<close> is the
  outcome of a run that needs more nested calls than the fuel allows, and a run that
  never returns has this outcome for every fuel.
\<close>

datatype error =
    DuplicateName string rtype "rtype option"
  | InvalidBoolTag string string string
  | DependentMissing string
  | IndexOutOfRange
  | SliceBoundsOutOfRange
  | FieldTagError string

datatype 'a result = Timeout | Panic error | Done 'a

fun bind :: "'a result \<Rightarrow> ('a \<Rightarrow> 'b result) \<Rightarrow> 'b result" where
  "bind Timeout f = Timeout"
| "bind (Panic e) f = Panic e"
| "bind (Done x) f = f x"

section \<open>The registry (registry.go)\<close>

record registry =
  prefix :: string
  schemas :: "string \<rightharpoonup> schema option"
  types :: "string \<rightharpoonup> rtype"
  seen :: "rtype \<rightharpoonup> bool"
  namer :: "rtype \<Rightarrow> string \<Rightarrow> string"
  aliases :: "rtype \<rightharpoonup> rtype"

definition NewRegistry :: "string \<Rightarrow> (rtype \<Rightarrow> string \<Rightarrow> string) \<Rightarrow> registry" where
  "NewRegistry p nm =
     \<lparr>prefix = p, schemas = Map.empty, types = Map.empty, seen = Map.empty, namer = nm,
      aliases = Map.empty\<rparr>"

definition RegisterTypeAlias :: "registry \<Rightarrow> rtype \<Rightarrow> rtype \<Rightarrow> registry" where
  "RegisterTypeAlias r t alias = r\<lparr>aliases := (aliases r)(t \<mapsto> alias)\<rparr>"

definition HasPrefix :: "string \<Rightarrow> string \<Rightarrow> bool" where
  "HasPrefix s p = (take (length p) s = p)"

definition SchemaFromRef :: "registry \<Rightarrow> string \<Rightarrow> schema option" where
  "SchemaFromRef r ref =
     (if \<not> HasPrefix ref (prefix r) then None
      else (case schemas r (drop (length (prefix r)) ref) of None \<Rightarrow> None | Some s \<Rightarrow> s))"

text \<open>\<open>ref[len(r.prefix):]\<close> panics when the reference is shorter than the prefix.\<close>

definition TypeFromRef :: "registry \<Rightarrow> string \<Rightarrow> error + rtype option" where
  "TypeFromRef r ref =
     (if length ref < length (prefix r) then Inl SliceBoundsOutOfRange
      else Inr (types r (drop (length (prefix r)) ref)))"

section \<open>The program's types and capabilities\<close>

text \<open>
  What reflection tells the package about the program it runs in: the struct declarations,
  which types implement \<open>huma.SchemaProvider\<close> (with the schema they return; a provider
  that calls back into the registry is outside the model), \<open>huma.SchemaTransformer\<close>
  and \<open>encoding.TextUnmarshaler\<close>, and \<open>bits.UintSize\<close>.

  Two pieces of library code that the walker calls are parameters as well:
  \<^item> \<open>huma.SchemaFromField\<close> belongs to the huma library. It asks the registry for the
    schema of the field's type, allowing a reference, and, when there is one, edits that
    node from the field's documentation and validation tags; \<open>fieldTagEdits\<close> stands
    for these edits, which may panic.
  \<^item> \<open>unicode.ToLower\<close> on a rune outside ASCII: \<open>toLowerFirstRune\<close> lower-cases the
    first rune of a string that starts with a byte above 127.
\<close>

record world =
  structs :: "(tyname \<times> sdecl) list"
  schemaProvider :: "rtype \<Rightarrow> schema option"
  schemaTransformer :: "rtype \<Rightarrow> (schema option \<Rightarrow> schema option) option"
  textUnmarshaler :: "rtype \<Rightarrow> bool"
  UintSize :: nat
  fieldTagEdits :: "registry \<Rightarrow> sfield \<Rightarrow> schema \<Rightarrow> error + schema"
  toLowerFirstRune :: "string \<Rightarrow> string"

definition emptyDecl :: sdecl where
  "emptyDecl = \<lparr>sFields = [], sMethods = [], sPtrMethods = []\<rparr>"

definition declOf :: "world \<Rightarrow> rtype \<Rightarrow> sdecl" where
  "declOf w t =
     (case t of
        StructT n \<Rightarrow> (case map_of (structs w) n of Some d \<Rightarrow> d | None \<Rightarrow> emptyDecl)
      | _ \<Rightarrow> emptyDecl)"

text \<open>\<open>oriT.Method(i)\<close> for \<open>i\<close> in \<open>range oriT.NumMethod()\<close>: the method set of a
  struct type, of a pointer to it, and the empty method set of a pointer to a pointer.\<close>

definition methodsOf :: "world \<Rightarrow> rtype \<Rightarrow> smethod list" where
  "methodsOf w oriT =
     (case oriT of
        StructT n \<Rightarrow> sMethods (declOf w oriT)
      | PtrT (StructT n) \<Rightarrow> sPtrMethods (declOf w (StructT n))
      | _ \<Rightarrow> [])"

text \<open>\<open>t.FieldByName\<close>, on the fields the struct declares itself (a field promoted from
  an embedded struct is not looked for).\<close>

definition FieldByName :: "world \<Rightarrow> rtype \<Rightarrow> string \<Rightarrow> sfield option" where
  "FieldByName w t nm = find (\<lambda>f. fName f = nm) (sFields (declOf w t))"

section \<open>Strings\<close>

text \<open>\<open>strings.Contains\<close>\<close>

fun Contains :: "string \<Rightarrow> string \<Rightarrow> bool" where
  "Contains [] sub = (sub = [])"
| "Contains (c # cs) sub = (HasPrefix (c # cs) sub \<or> Contains cs sub)"

text \<open>\<open>strings.Split(s, ",")\<close>\<close>

fun SplitComma :: "string \<Rightarrow> string list" where
  "SplitComma [] = [[]]"
| "SplitComma (c # cs) =
     (if c = CHR '','' then [] # SplitComma cs
      else (case SplitComma cs of [] \<Rightarrow> [[c]] | x # xs \<Rightarrow> (c # x) # xs))"

fun Join :: "string list \<Rightarrow> string \<Rightarrow> string" where
  "Join [] sep = []"
| "Join [x] sep = x"
| "Join (x # y # ys) sep = x @ sep @ Join (y # ys) sep"

text \<open>\<open>strings.TrimSpace\<close>: the white space of \<open>unicode.IsSpace\<close>, in UTF-8.\<close>

definition isSpace1 :: "char \<Rightarrow> bool" where
  "isSpace1 a = (a \<in> set [CHR 0x09, CHR 0x0A, CHR 0x0B, CHR 0x0C, CHR 0x0D, CHR 0x20])"

definition isSpace2 :: "char \<Rightarrow> char \<Rightarrow> bool" where
  "isSpace2 a b = (a = CHR 0xC2 \<and> (b = CHR 0x85 \<or> b = CHR 0xA0))"

definition isSpace3 :: "char \<Rightarrow> char \<Rightarrow> char \<Rightarrow> bool" where
  "isSpace3 a b c =
     ((a = CHR 0xE1 \<and> b = CHR 0x9A \<and> c = CHR 0x80)
      \<or> (a = CHR 0xE2 \<and> b = CHR 0x80 \<and>
           c \<in> set [CHR 0x80, CHR 0x81, CHR 0x82, CHR 0x83, CHR 0x84, CHR 0x85, CHR 0x86,
                     CHR 0x87, CHR 0x88, CHR 0x89, CHR 0x8A, CHR 0xA8, CHR 0xA9, CHR 0xAF])
      \<or> (a = CHR 0xE2 \<and> b = CHR 0x81 \<and> c = CHR 0x9F)
      \<or> (a = CHR 0xE3 \<and> b = CHR 0x80 \<and> c = CHR 0x80))"

fun trimLeft :: "string \<Rightarrow> string" where
  "trimLeft (a # b # c # cs) =
     (if isSpace1 a then trimLeft (b # c # cs)
      else if isSpace2 a b then trimLeft (c # cs)
      else if isSpace3 a b c then trimLeft cs
      else a # b # c # cs)"
| "trimLeft [a, b] = (if isSpace1 a then trimLeft [b] else if isSpace2 a b then [] else [a, b])"
| "trimLeft [a] = (if isSpace1 a then [] else [a])"
| "trimLeft [] = []"

text \<open>The same from the right end, on the reversed string.\<close>

fun trimLeftRev :: "string \<Rightarrow> string" where
  "trimLeftRev (a # b # c # cs) =
     (if isSpace1 a then trimLeftRev (b # c # cs)
      else if isSpace2 b a then trimLeftRev (c # cs)
      else if isSpace3 c b a then trimLeftRev cs
      else a # b # c # cs)"
| "trimLeftRev [a, b] =
     (if isSpace1 a then trimLeftRev [b] else if isSpace2 b a then [] else [a, b])"
| "trimLeftRev [a] = (if isSpace1 a then [] else [a])"
| "trimLeftRev [] = []"

definition TrimSpace :: "string \<Rightarrow> string" where
  "TrimSpace s = rev (trimLeftRev (rev (trimLeft s)))"

definition quoted :: "string \<Rightarrow> string" where
  "quoted s = CHR 0x27 # s @ [CHR 0x27]"

text \<open>An index expression \<open>xs[i]\<close> panics out of range.\<close>

definition index :: "'a list \<Rightarrow> nat \<Rightarrow> 'a result" where
  "index xs i = (if i < length xs then Done (xs ! i) else Panic IndexOutOfRange)"

subsection \<open>The protobuf name pattern\<close>

text \<open>
  \<open>protobufNameRegex\<close> is \<^verbatim>\<open>^.*name\=([a-zA-Z0-9]+)\,.*$\<close>. Without flags \<open>.\<close> does not
  match a newline and the anchors are those of the whole text, so a text with a newline
  has no match. Otherwise the text matches when somewhere in it \<open>name=\<close> is followed by
  a non-empty run of letters and digits and then a comma; the run cannot stop early,
  since the comma is no letter or digit. The leading \<open>.*\<close> is greedy, so the group is
  taken at the last such place. \<open>FindStringSubmatch\<close> returns nil (here the empty list)
  when there is no match, and the whole match and the group otherwise.
\<close>

definition isAlnum :: "char \<Rightarrow> bool" where
  "isAlnum c =
     (c \<in> set ''abcdefghijklmnopqrstuvwxyzABCDEFGHIJKLMNOPQRSTUVWXYZ0123456789'')"

definition matchNameAt :: "string \<Rightarrow> string option" where
  "matchNameAt s =
     (if HasPrefix s ''name='' then
        (let rest = drop 5 s; g = takeWhile isAlnum rest in
         if g \<noteq> [] \<and> HasPrefix (dropWhile isAlnum rest) '','' then Some g else None)
      else None)"

fun lastNameMatch :: "string \<Rightarrow> string option" where
  "lastNameMatch [] = None"
| "lastNameMatch (c # cs) =
     (case lastNameMatch cs of Some g \<Rightarrow> Some g | None \<Rightarrow> matchNameAt (c # cs))"

definition FindStringSubmatch :: "string \<Rightarrow> string list" where
  "FindStringSubmatch j =
     (if CHR 0x0A \<in> set j then []
      else (case lastNameMatch j of None \<Rightarrow> [] | Some g \<Rightarrow> [j, g]))"

section \<open>The walker (json_format.go)\<close>

definition boolTag :: "sfield \<Rightarrow> string \<Rightarrow> bool result" where
  "boolTag f tag =
     (let v = TagGet f tag in
      if v \<noteq> [] then
        (if v = ''true'' then Done True
         else if v = ''false'' then Done False
         else Panic (InvalidBoolTag tag (fName f) v))
      else Done False)"

record fieldInfo =
  Parent :: rtype
  Field :: sfield

text \<open>
  \<open>getFields\<close> calls itself for every embedded struct and shares the \<open>visited\<close> map
  between the calls, so the map is passed along and returned. The recursion is bounded
  by the number of declared structs; it is written with fuel (\<open>None\<close>: out of fuel), and
  \<open>getFields_enough\<close> below shows that the fuel the walker gives always suffices.
\<close>

fun embeddedLoop ::
  "(rtype \<Rightarrow> rtype set \<Rightarrow> (fieldInfo list \<times> rtype set) option) \<Rightarrow> sfield list \<Rightarrow>
   fieldInfo list \<Rightarrow> rtype set \<Rightarrow> (fieldInfo list \<times> rtype set) option" where
  "embeddedLoop rec [] flds visited = Some (flds, visited)"
| "embeddedLoop rec (f # fs) flds visited =
     (let newTyp = deref (fType f) in
      if Kind newTyp = KStruct then
        (case rec newTyp visited of
           None \<Rightarrow> None
         | Some (sub, visited') \<Rightarrow> embeddedLoop rec fs (flds @ sub) visited')
      else embeddedLoop rec fs flds visited)"

primrec getFields ::
  "nat \<Rightarrow> world \<Rightarrow> rtype \<Rightarrow> rtype set \<Rightarrow> (fieldInfo list \<times> rtype set) option" where
  "getFields 0 w typ visited = None"
| "getFields (Suc n) w typ visited =
     (if typ \<in> visited then Some ([], visited)
      else
        (let exported = filter fExported (sFields (declOf w typ));
             embedded = filter fAnonymous exported;
             flds = map (\<lambda>f. \<lparr>Parent = typ, Field = f\<rparr>)
                        (filter (\<lambda>f. \<not> fAnonymous f) exported)
         in embeddedLoop (getFields n w) embedded flds (insert typ visited)))"

definition toLowerASCII :: "char \<Rightarrow> char" where
  "toLowerASCII c =
     (case map_of (zip ''ABCDEFGHIJKLMNOPQRSTUVWXYZ'' ''abcdefghijklmnopqrstuvwxyz'') c of
        None \<Rightarrow> c
      | Some l \<Rightarrow> l)"

text \<open>The closure \<open>getName\<close>: drop \<open>Get\<close> and lower-case the first rune.\<close>

definition getName :: "world \<Rightarrow> string \<Rightarrow> string" where
  "getName w s0 =
     (let s = drop 3 s0 in
      case s of
        [] \<Rightarrow> s
      | c # cs \<Rightarrow> if (of_char c :: nat) < 128 then toLowerASCII c # cs else toLowerFirstRune w s)"

type_synonym callback =
  "registry \<Rightarrow> rtype \<Rightarrow> bool \<Rightarrow> string \<Rightarrow> (schema option \<times> registry) result"

text \<open>
  The walker receives the registry as a \<open>huma.Registry\<close> interface value and calls its
  \<open>Schema\<close> method for nested types: here the method is the argument \<open>cb\<close>, and the
  registry's state is passed to it and returned by it.
\<close>

definition SchemaFromField ::
  "callback \<Rightarrow> world \<Rightarrow> registry \<Rightarrow> sfield \<Rightarrow> string \<Rightarrow> (schema option \<times> registry) result" where
  "SchemaFromField cb w r f hint =
     bind (cb r (fType f) True hint) (\<lambda>(fs, r').
       case fs of
         None \<Rightarrow> Done (None, r')
       | Some s \<Rightarrow>
           (case fieldTagEdits w r' f s of Inl e \<Rightarrow> Panic e | Inr s' \<Rightarrow> Done (Some s', r')))"

record walk =
  reg :: registry
  fieldSet :: "string set"
  props :: "(string \<times> schema) list"
  required :: "string list"
  dependentRequiredMap :: "(string \<times> string list) list"
  ignoreAdditionalProperties :: bool
  oneOf :: "schema list"

text \<open>The alternative that is appended to \<open>s.OneOf\<close> (lines 225 to 231).\<close>

definition oneOfAlternative :: "string \<Rightarrow> schema \<Rightarrow> schema" where
  "oneOfAlternative name fs =
     set_Required [name] (set_Properties [(name, fs)] (set_Type ''object'' emptySchema))"

text \<open>One turn of the loop over the methods of \<open>oriT\<close> (lines 188 to 232).\<close>

definition methodStep ::
  "callback \<Rightarrow> world \<Rightarrow> rtype \<Rightarrow> fieldInfo list \<Rightarrow> smethod \<Rightarrow> walk \<Rightarrow> walk result" where
  "methodStep cb w t flds m st =
     (case mOut m of
        [cft] \<Rightarrow>
          if \<not> HasPrefix (mName m) ''Get'' then Done st
          else if list_ex (\<lambda>f. mName m = ''Get'' @ fName (Field f)) flds then Done st
          else
            bind (cb (reg st) cft True (Name t @ Name cft @ ''Struct'')) (\<lambda>(fs, r').
              case fs of
                None \<Rightarrow> Done (st\<lparr>reg := r'\<rparr>)
              | Some fs' \<Rightarrow>
                  Done (st\<lparr>reg := r', ignoreAdditionalProperties := True,
                    oneOf := oneOf st @ [oneOfAlternative (getName w (mName m)) fs']\<rparr>))
      | _ \<Rightarrow> Done st)"

fun methodLoop ::
  "callback \<Rightarrow> world \<Rightarrow> rtype \<Rightarrow> fieldInfo list \<Rightarrow> smethod list \<Rightarrow> walk \<Rightarrow> walk result" where
  "methodLoop cb w t flds [] st = Done st"
| "methodLoop cb w t flds (m # ms) st =
     bind (methodStep cb w t flds m st) (methodLoop cb w t flds ms)"

text \<open>The effective name of a field and whether it starts as required (lines 242 to 257).\<close>

definition fieldNameRequired :: "sfield \<Rightarrow> (string \<times> bool) result" where
  "fieldNameRequired f =
     (if TagGet f ''protobuf'' \<noteq> [] then
        bind (index (FindStringSubmatch (TagGet f ''protobuf'')) 1) (\<lambda>n.
          Done (if n \<noteq> [] then n else fName f,
                \<not> (''oneof'' \<in> set (SplitComma (TagGet f ''protobuf'')))))
      else if TagGet f ''json'' \<noteq> [] then
        bind (index (SplitComma (TagGet f ''json'')) 0) (\<lambda>n.
          Done (if n \<noteq> [] then n else fName f,
                \<not> Contains (TagGet f ''json'') ''omitempty''))
      else Done (fName f, True))"

text \<open>The two edits of a field's schema inside the loop: a 64-bit integer with a protobuf
  tag becomes a string (lines 279 to 281), and a pointer with \<open>omitempty\<close> that is not
  tagged nullable is not nullable (lines 291 to 295). The node is stored in \<open>props\<close> by
  pointer before the second edit, so the map holds the node after both.\<close>

definition fieldSchemaEdits :: "sfield \<Rightarrow> schema \<Rightarrow> schema" where
  "fieldSchemaEdits f fs0 =
     (let fs1 = (if TagGet f ''protobuf'' \<noteq> [] \<and> Kind (fType f) = KInt64
                 then set_Type TypeString fs0 else fs0)
      in if Kind (fType f) = KPtr \<and> Contains (TagGet f ''json'') ''omitempty''
            \<and> TagGet f ''nullable'' \<noteq> ''true''
         then set_Nullable False fs1 else fs1)"

text \<open>The end of a turn of the loop over the fields, for a field that is documented
  (lines 273 to 296).\<close>

definition emitField ::
  "callback \<Rightarrow> world \<Rightarrow> rtype \<Rightarrow> sfield \<Rightarrow> string \<Rightarrow> bool \<Rightarrow> walk \<Rightarrow> walk result" where
  "emitField cb w t f name fieldRequired st1 =
     (let dr = TagGet f ''dependentRequired'';
          st2 = (if TrimSpace dr \<noteq> [] then
                   st1\<lparr>dependentRequiredMap :=
                     AList.update name (SplitComma dr) (dependentRequiredMap st1)\<rparr>
                 else st1)
      in
      bind (SchemaFromField cb w (reg st2) f (Name t @ fName f @ ''Struct'')) (\<lambda>(fs, r').
        case fs of
          None \<Rightarrow> Done (st2\<lparr>reg := r'\<rparr>)
        | Some fs0 \<Rightarrow>
            Done (st2\<lparr>reg := r',
              props := AList.update name (fieldSchemaEdits f fs0) (props st2),
              required := (if fieldRequired then required st2 @ [name]
                           else required st2)\<rparr>)))"

text \<open>The middle of a turn, for a field that is no union discriminator: its name, whether
  it is required, and whether it is left out (lines 242 to 271).\<close>

definition plainField ::
  "callback \<Rightarrow> world \<Rightarrow> rtype \<Rightarrow> sfield \<Rightarrow> walk \<Rightarrow> walk result" where
  "plainField cb w t f st1 =
     bind (fieldNameRequired f) (\<lambda>(name, fieldRequired0).
       if name = ''-'' then Done st1
       else
         bind (if TagLookup f ''required'' \<noteq> None then boolTag f ''required''
               else Done fieldRequired0) (\<lambda>fieldRequired.
           bind (boolTag f ''hidden'') (\<lambda>hidden.
             if hidden then Done st1
             else emitField cb w t f name fieldRequired st1)))"

text \<open>One turn of the loop over the fields (lines 178 to 297).\<close>

definition fieldStep ::
  "callback \<Rightarrow> world \<Rightarrow> rtype \<Rightarrow> rtype \<Rightarrow> fieldInfo list \<Rightarrow> fieldInfo \<Rightarrow> walk \<Rightarrow> walk result"
  where
  "fieldStep cb w t oriT flds info st =
     (let f = Field info in
      if fName f \<in> fieldSet st then Done st
      else if TagGet f ''protobuf_oneof'' \<noteq> [] then
        methodLoop cb w t flds (methodsOf w oriT) st
      else plainField cb w t f (st\<lparr>fieldSet := insert (fName f) (fieldSet st)\<rparr>))"

fun fieldLoop ::
  "callback \<Rightarrow> world \<Rightarrow> rtype \<Rightarrow> rtype \<Rightarrow> fieldInfo list \<Rightarrow> fieldInfo list \<Rightarrow> walk \<Rightarrow>
   walk result" where
  "fieldLoop cb w t oriT flds [] st = Done st"
| "fieldLoop cb w t oriT flds (info # rest) st =
     bind (fieldStep cb w t oriT flds info st) (fieldLoop cb w t oriT flds rest)"

text \<open>The messages of the check of the dependent fields (lines 300 to 315), in the order
  of the sorted field names.\<close>

definition dependentMessage :: "string \<Rightarrow> string \<Rightarrow> string" where
  "dependentMessage dep fld =
     ''dependent field '' @ quoted dep @ '' for field '' @ quoted fld @ '' does not exist''"

text \<open>The inner loop, over the dependents of one field.\<close>

definition fieldDependentErrors ::
  "(string \<times> string list) list \<Rightarrow> (string \<times> schema) list \<Rightarrow> string \<Rightarrow> string list"
  where
  "fieldDependentErrors depMap ps fld =
     map (\<lambda>dep. dependentMessage dep fld)
       (filter (\<lambda>dep. map_of ps dep = None)
          (case map_of depMap fld of None \<Rightarrow> [] | Some ds \<Rightarrow> ds))"

definition dependentErrors ::
  "(string \<times> string list) list \<Rightarrow> (string \<times> schema) list \<Rightarrow> string list" where
  "dependentErrors depMap ps =
     concat (map (fieldDependentErrors depMap ps) (sort (map fst depMap)))"

text \<open>After the loop over the fields (lines 298 to 340). \<open>PrecomputeMessages\<close> fills
  unexported caches of the node only and is left out.\<close>

definition structFinish :: "world \<Rightarrow> rtype \<Rightarrow> walk \<Rightarrow> (schema option \<times> registry) result" where
  "structFinish w t st =
     (let s = set_OneOf (oneOf st) (set_Type TypeObject emptySchema);
          errs = dependentErrors (dependentRequiredMap st) (props st)
      in
      if errs \<noteq> [] then Panic (DependentMissing (Join errs ''; ''))
      else
        bind (if \<not> ignoreAdditionalProperties st then
                (case FieldByName w t ''_'' of
                   Some f \<Rightarrow>
                     bind (if TagLookup f ''additionalProperties'' \<noteq> None
                           then boolTag f ''additionalProperties'' else Done False)
                       (\<lambda>additionalProps.
                         bind (if TagLookup f ''nullable'' \<noteq> None
                               then bind (boolTag f ''nullable'') (\<lambda>b. Done (set_Nullable b s))
                               else Done s)
                           (\<lambda>s'. Done (set_AdditionalProperties (AddlBool additionalProps) s')))
                 | None \<Rightarrow> Done (set_AdditionalProperties (AddlBool False) s))
              else Done s)
          (\<lambda>s'. Done (Some (set_DependentRequired (dependentRequiredMap st)
                          (set_Required (required st) (set_Properties (props st) s'))),
                      reg st)))"

definition initWalk :: "registry \<Rightarrow> walk" where
  "initWalk r =
     \<lparr>reg = r, fieldSet = {}, props = [], required = [], dependentRequiredMap = [],
      ignoreAdditionalProperties = False, oneOf = []\<rparr>"

definition structSchema ::
  "callback \<Rightarrow> world \<Rightarrow> registry \<Rightarrow> rtype \<Rightarrow> rtype \<Rightarrow> (schema option \<times> registry) result" where
  "structSchema cb w r t oriT =
     (case getFields (Suc (length (structs w))) w t {} of
        None \<Rightarrow> Timeout
      | Some (flds, visited) \<Rightarrow>
          bind (fieldLoop cb w t oriT flds flds (initWalk r)) (structFinish w t))"

definition sliceSchema ::
  "callback \<Rightarrow> registry \<Rightarrow> rtype \<Rightarrow> (schema option \<times> registry) result" where
  "sliceSchema cb r t =
     (if Kind (Elem t) = KUint8 then
        Done (Some (set_ContentEncoding ''base64'' (set_Type TypeString emptySchema)), r)
      else
        bind (cb r (Elem t) True (Name t @ ''Item'')) (\<lambda>(items, r').
          let s = set_Items items (set_Nullable True (set_Type TypeArray emptySchema)) in
          Done (Some (if Kind t = KArray
                      then set_MaxItems (Some (Len t)) (set_MinItems (Some (Len t)) s)
                      else s), r')))"

definition intFormat :: "world \<Rightarrow> string" where
  "intFormat w = (if UintSize w = 32 then ''int32'' else ''int64'')"

text \<open>The switch over \<open>t.Kind()\<close> (lines 107 to 345).\<close>

definition kindSchema ::
  "callback \<Rightarrow> world \<Rightarrow> registry \<Rightarrow> rtype \<Rightarrow> rtype \<Rightarrow> (schema option \<times> registry) result" where
  "kindSchema cb w r t oriT =
     (case Kind t of
        KBool \<Rightarrow> Done (Some (set_Type TypeBoolean emptySchema), r)
      | KInt \<Rightarrow> Done (Some (set_Format (intFormat w) (set_Type TypeInteger emptySchema)), r)
      | KInt8 \<Rightarrow> Done (Some (set_Format ''int32'' (set_Type TypeInteger emptySchema)), r)
      | KInt16 \<Rightarrow> Done (Some (set_Format ''int32'' (set_Type TypeInteger emptySchema)), r)
      | KInt32 \<Rightarrow> Done (Some (set_Format ''int32'' (set_Type TypeInteger emptySchema)), r)
      | KInt64 \<Rightarrow> Done (Some (set_Format ''int64'' (set_Type TypeInteger emptySchema)), r)
      | KUint \<Rightarrow>
          Done (Some (set_Minimum (Some 0)
                  (set_Format (intFormat w) (set_Type TypeInteger emptySchema))), r)
      | KUint8 \<Rightarrow>
          Done (Some (set_Minimum (Some 0)
                  (set_Format ''int32'' (set_Type TypeInteger emptySchema))), r)
      | KUint16 \<Rightarrow>
          Done (Some (set_Minimum (Some 0)
                  (set_Format ''int32'' (set_Type TypeInteger emptySchema))), r)
      | KUint32 \<Rightarrow>
          Done (Some (set_Minimum (Some 0)
                  (set_Format ''int32'' (set_Type TypeInteger emptySchema))), r)
      | KUint64 \<Rightarrow>
          Done (Some (set_Minimum (Some 0)
                  (set_Format ''int64'' (set_Type TypeInteger emptySchema))), r)
      | KFloat32 \<Rightarrow> Done (Some (set_Format ''float'' (set_Type TypeNumber emptySchema)), r)
      | KFloat64 \<Rightarrow> Done (Some (set_Format ''double'' (set_Type TypeNumber emptySchema)), r)
      | KString \<Rightarrow> Done (Some (set_Type TypeString emptySchema), r)
      | KSlice \<Rightarrow> sliceSchema cb r t
      | KArray \<Rightarrow> sliceSchema cb r t
      | KMap \<Rightarrow>
          bind (cb r (Elem t) True (Name t @ ''Value'')) (\<lambda>(e, r').
            Done (Some (set_AdditionalProperties (AddlSchema e)
                    (set_Type TypeObject emptySchema)), r'))
      | KStruct \<Rightarrow> structSchema cb w r t oriT
      | KInterface \<Rightarrow> Done (Some emptySchema, r)
      | _ \<Rightarrow> Done (None, r))"

text \<open>The last switch of \<open>schemaFromType\<close>: a scalar is nullable when reached through a
  pointer.\<close>

definition scalarNullable :: "bool \<Rightarrow> schema \<Rightarrow> schema" where
  "scalarNullable isPointer s =
     (if Type s = TypeBoolean \<or> Type s = TypeInteger \<or> Type s = TypeNumber
         \<or> Type s = TypeString
      then set_Nullable isPointer s else s)"

definition stringSchema :: "bool \<Rightarrow> string \<Rightarrow> schema" where
  "stringSchema isPointer fmt =
     set_Format fmt (set_Nullable isPointer (set_Type TypeString emptySchema))"

definition schemaFromType ::
  "callback \<Rightarrow> world \<Rightarrow> registry \<Rightarrow> rtype \<Rightarrow> (schema option \<times> registry) result" where
  "schemaFromType cb w r oriT =
     (let isPointer = (Kind oriT = KPtr);
          t = deref oriT
      in
      case schemaProvider w t of
        Some custom \<Rightarrow> Done (Some custom, r)
      | None \<Rightarrow>
          if t = timeType then Done (Some (stringSchema isPointer ''date-time''), r)
          else if t = urlType then Done (Some (stringSchema isPointer ''uri''), r)
          else if t = ipType then Done (Some (stringSchema isPointer ''ipv4''), r)
          else if t = ipAddrType then Done (Some (stringSchema isPointer ''ipv4''), r)
          else if t = rawMessageType then Done (Some emptySchema, r)
          else if textUnmarshaler w t then Done (Some (stringSchema isPointer []), r)
          else
            bind (kindSchema cb w r t oriT) (\<lambda>(s, r').
              Done (map_option (scalarNullable isPointer) s, r')))"

definition SchemaFromType ::
  "callback \<Rightarrow> world \<Rightarrow> registry \<Rightarrow> rtype \<Rightarrow> (schema option \<times> registry) result" where
  "SchemaFromType cb w r t =
     bind (schemaFromType cb w r t) (\<lambda>(s, r').
       case schemaTransformer w (deref t) of
         Some st \<Rightarrow> Done (st s, r')
       | None \<Rightarrow> Done (s, r'))"

section \<open>The registry's Schema method (registry.go, lines 54 to 116)\<close>

definition getsRef :: "world \<Rightarrow> rtype \<Rightarrow> bool" where
  "getsRef w t =
     (Kind t = KStruct \<and> t \<noteq> timeType \<and> schemaProvider w t = None \<and> \<not> textUnmarshaler w t)"

text \<open>\<open>origType\<close>: a pointer to an array or a slice decays to the array or slice.\<close>

definition origTypeOf :: "rtype \<Rightarrow> rtype" where
  "origTypeOf t0 = (if Kind (deref t0) = KArray \<or> Kind (deref t0) = KSlice then deref t0 else t0)"

text \<open>The three stores of lines 103 to 105.\<close>

definition register :: "registry \<Rightarrow> string \<Rightarrow> rtype \<Rightarrow> registry" where
  "register r name t =
     r\<lparr>schemas := (schemas r)(name \<mapsto> Some emptySchema),
       types := (types r)(name \<mapsto> t),
       seen := (seen r)(t \<mapsto> True)\<rparr>"

fun Schema ::
  "nat \<Rightarrow> world \<Rightarrow> registry \<Rightarrow> rtype \<Rightarrow> bool \<Rightarrow> string \<Rightarrow> (schema option \<times> registry) result"
  where
  "Schema 0 w r t0 allowRef hint = Timeout"
| "Schema (Suc n) w r t0 allowRef hint =
     (let t = deref t0;
          origType = origTypeOf t0
      in
      case aliases r t of
        Some alias \<Rightarrow> Schema n w r alias allowRef hint
      | None \<Rightarrow>
          (let name = namer r origType hint in
           case (if getsRef w t then schemas r name else None) of
             Some s \<Rightarrow>
               (if seen r t = None then Panic (DuplicateName name t (types r name))
                else if allowRef then Done (Some (refSchema (prefix r @ name)), r)
                else Done (s, r))
           | None \<Rightarrow>
             bind (SchemaFromType (\<lambda>r' t' a' h'. Schema n w r' t' a' h') w
                     (if getsRef w t then register r name t else r) origType)
               (\<lambda>(s, r2).
                 let r3 = (if getsRef w t then r2\<lparr>schemas := (schemas r2)(name \<mapsto> s)\<rparr> else r2)
                 in if getsRef w t \<and> allowRef then Done (Some (refSchema (prefix r @ name)), r3)
                    else Done (s, r3))))"

section \<open>Example programs\<close>

text \<open>Concrete programs on which the theorems below are instantiated. \<open>exNamer\<close> names
  a type in the manner of \<open>huma.DefaultSchemaNamer\<close>: by the name of the type behind
  the pointers, and by the hint when that type is unnamed.\<close>

definition exNamer :: "rtype \<Rightarrow> string \<Rightarrow> string" where
  "exNamer t hint = (if Name (deref t) = [] then hint else Name (deref t))"

definition exField :: "string \<Rightarrow> rtype \<Rightarrow> (string \<times> string) list \<Rightarrow> sfield" where
  "exField n t tags =
     \<lparr>fName = n, fType = t, fTag = tags, fExported = True, fAnonymous = False\<rparr>"

definition exWorld :: "(tyname \<times> sdecl) list \<Rightarrow> world" where
  "exWorld ds =
     \<lparr>structs = ds, schemaProvider = (\<lambda>t. None), schemaTransformer = (\<lambda>t. None),
      textUnmarshaler = (\<lambda>t. False), UintSize = 64, fieldTagEdits = (\<lambda>r f s. Inr s),
      toLowerFirstRune = (\<lambda>s. s)\<rparr>"

definition exRegistry :: registry where
  "exRegistry = NewRegistry ''#/components/schemas/'' exNamer"

text \<open>\<^verbatim>\<open>type Node struct { Next *Node `json:"next,omitempty"`; Val uint32 }\<close>\<close>

definition nodeT :: rtype where
  "nodeT = StructT (''example'', ''Node'')"

definition uint32T :: rtype where
  "uint32T = Leaf LUint32 ([], ''uint32'')"

definition nodeWorld :: world where
  "nodeWorld = exWorld
     [((''example'', ''Node''),
       \<lparr>sFields = [exField ''Next'' (PtrT nodeT) [(''json'', ''next,omitempty'')],
                   exField ''Val'' uint32T []],
        sMethods = [], sPtrMethods = []\<rparr>)]"

text \<open>The registry after the schema of \<open>Node\<close> has been derived.\<close>

definition nodeRegistry :: registry where
  "nodeRegistry =
     (case Schema 3 nodeWorld exRegistry nodeT True [] of Done (s, r) \<Rightarrow> r | _ \<Rightarrow> exRegistry)"



text \<open>The schema of an outcome, without the registry (which holds functions and cannot
  be compared by evaluation).\<close>

definition schemaOf :: "(schema option \<times> registry) result \<Rightarrow> schema option result" where
  "schemaOf x = bind x (\<lambda>(s, r). Done s)"

text \<open>\<^verbatim>\<open>type Opt struct { Nick *string `json:"nick,omitempty"`; Age *int32 `json:"age"` }\<close>\<close>

definition stringT :: rtype where
  "stringT = Leaf LString ([], ''string'')"

definition int32T :: rtype where
  "int32T = Leaf LInt32 ([], ''int32'')"

definition optT :: rtype where
  "optT = StructT (''example'', ''Opt'')"

definition nickField :: sfield where
  "nickField = exField ''Nick'' (PtrT stringT) [(''json'', ''nick,omitempty'')]"

definition ageField :: sfield where
  "ageField = exField ''Age'' (PtrT int32T) [(''json'', ''age'')]"

definition optWorld :: world where
  "optWorld = exWorld
     [((''example'', ''Opt''),
       \<lparr>sFields = [nickField, ageField], sMethods = [], sPtrMethods = []\<rparr>)]"

text \<open>\<^verbatim>\<open>type Proto struct { Title string `protobuf:"bytes,1,opt,name=title,proto3"`;
  UserId string `protobuf:"bytes,2,opt,name=user_id,json=userId,proto3"` }\<close>\<close>

definition protoT :: rtype where
  "protoT = StructT (''example'', ''Proto'')"

definition titleField :: sfield where
  "titleField = exField ''Title'' stringT [(''protobuf'', ''bytes,1,opt,name=title,proto3'')]"

definition userIdField :: sfield where
  "userIdField = exField ''UserId'' stringT
     [(''protobuf'', ''bytes,2,opt,name=user_id,json=userId,proto3'')]"

definition protoWorld :: world where
  "protoWorld = exWorld
     [((''example'', ''Proto''),
       \<lparr>sFields = [titleField, userIdField], sMethods = [], sPtrMethods = []\<rparr>)]"

subsection \<open>The language of the protobuf name pattern\<close>

text \<open>The texts that \<open>protobufNameRegex\<close> matches, said without the matcher: no newline,
  and somewhere \<open>name=\<close>, a non-empty run of letters and digits, and a comma.\<close>

definition protobufNamePattern :: "string \<Rightarrow> bool" where
  "protobufNamePattern j =
     (CHR 0x0A \<notin> set j
      \<and> (\<exists>pre g post. j = pre @ ''name='' @ g @ '','' @ post \<and> g \<noteq> []
            \<and> (\<forall>c \<in> set g. isAlnum c)))"

text \<open>\<^verbatim>\<open>type Dep struct { Code string `json:"code" dependentRequired:"kind,zone"`;
  Area string `json:"area" dependentRequired:"code,unit"` }\<close>\<close>

definition depT :: rtype where
  "depT = StructT (''example'', ''Dep'')"

definition depWorld :: world where
  "depWorld = exWorld
     [((''example'', ''Dep''),
       \<lparr>sFields =
          [exField ''Code'' stringT [(''json'', ''code''), (''dependentRequired'', ''kind,zone'')],
           exField ''Area'' stringT [(''json'', ''area''), (''dependentRequired'', ''code,unit'')]],
        sMethods = [], sPtrMethods = []\<rparr>)]"

subsection \<open>The accessors of a union\<close>









subsection \<open>How the registry changes\<close>

text \<open>A registry only grows: a call of \<open>Schema\<close> leaves the prefix, the naming function
  and the aliases as they are, and no name and no seen type is ever removed.\<close>

definition grows :: "registry \<Rightarrow> registry \<Rightarrow> bool" where
  "grows r r' \<longleftrightarrow>
     prefix r' = prefix r \<and> namer r' = namer r \<and> aliases r' = aliases r
     \<and> dom (schemas r) \<subseteq> dom (schemas r') \<and> dom (seen r) \<subseteq> dom (seen r')"

definition cbGrows :: "callback \<Rightarrow> bool" where
  "cbGrows cb \<longleftrightarrow> (\<forall>r t a h x r'. cb r t a h = Done (x, r') \<longrightarrow> grows r r')"

text \<open>Two distinct anonymous struct types, \<^verbatim>\<open>struct { X string }\<close> and
  \<^verbatim>\<open>struct { Y int32 }\<close>; an unnamed type is named by the hint. \<open>collisionRun\<close> asks
  for the first type under the hint \<open>Item\<close>, then (when \<open>seenBefore\<close>) for the second type
  under the hint \<open>Other\<close>, and last for the second type under the hint \<open>Item\<close>.\<close>

definition anonA :: rtype where
  "anonA = StructT (''struct { X string }'', [])"

definition anonB :: rtype where
  "anonB = StructT (''struct { Y int32 }'', [])"

definition anonWorld :: world where
  "anonWorld = exWorld
     [((''struct { X string }'', []),
       \<lparr>sFields = [exField ''X'' stringT []], sMethods = [], sPtrMethods = []\<rparr>),
      ((''struct { Y int32 }'', []),
       \<lparr>sFields = [exField ''Y'' int32T []], sMethods = [], sPtrMethods = []\<rparr>)]"

definition collisionRun :: "bool \<Rightarrow> (schema option \<times> registry) result" where
  "collisionRun seenBefore =
     bind (Schema 2 anonWorld exRegistry anonA True ''Item'') (\<lambda>(s1, r1).
       bind (if seenBefore then Schema 2 anonWorld r1 anonB True ''Other'' else Done (None, r1))
         (\<lambda>(s2, r2). Schema 2 anonWorld r2 anonB False ''Item''))"

subsection \<open>The types and hints of a derivation\<close>


fun tsize :: "rtype \<Rightarrow> nat" where
  "tsize (PtrT t) = Suc (tsize t)"
| "tsize (SliceT n t) = Suc (tsize t)"
| "tsize (ArrayT n l t) = Suc (tsize t)"
| "tsize (MapT n k t) = Suc (tsize t)"
| "tsize t = 0"









section \<open>Basic facts\<close>

lemmas set_defs =
  set_Type_def set_Nullable_def set_Format_def set_ContentEncoding_def set_Ref_def
  set_Items_def set_MinItems_def set_MaxItems_def set_Minimum_def set_Properties_def
  set_Required_def set_AdditionalProperties_def set_DependentRequired_def set_OneOf_def

lemmas type_defs =
  TypeBoolean_def TypeInteger_def TypeNumber_def TypeString_def TypeArray_def TypeObject_def

lemmas special_defs =
  timeType_def urlType_def ipType_def ipAddrType_def rawMessageType_def uint8T_def

lemma bind_Done_iff:
  "bind m f = Done y \<longleftrightarrow> (\<exists>x. m = Done x \<and> f x = Done y)"
  by (cases m) auto



section \<open>Reverse lookups\<close>

lemma SchemaFromRef_without_prefix:
  "\<not> HasPrefix ref (prefix r) \<Longrightarrow> SchemaFromRef r ref = None"
  by (simp add: SchemaFromRef_def)

text \<open>
  C5. A reference that does not carry the registry's prefix: \<open>SchemaFromRef\<close> reports
  absent, as the lemma above says for every registry. \<open>TypeFromRef\<close> does not look at
  the prefix at all. In the registry that holds \<open>Node\<close>, a reference of the prefix's
  length plus the name, with other characters in place of the prefix, yields the type
  descriptor of \<open>Node\<close>; a reference shorter than the prefix makes the slice
  expression panic.
\<close>

theorem TypeFromRef_ignores_prefix:
  "\<not> HasPrefix ''XXXXXXXXXXXXXXXXXXXXXNode'' (prefix nodeRegistry)
   \<and> SchemaFromRef nodeRegistry ''XXXXXXXXXXXXXXXXXXXXXNode'' = None
   \<and> TypeFromRef nodeRegistry ''XXXXXXXXXXXXXXXXXXXXXNode'' = Inr (Some nodeT)
   \<and> \<not> HasPrefix ''Node'' (prefix nodeRegistry)
   \<and> TypeFromRef nodeRegistry ''Node'' = Inl SliceBoundsOutOfRange"
  by code_simp

section \<open>The walker on types that are not structs\<close>

lemma leafKind_not_composite: "leafKind k \<notin> {KPtr, KStruct, KSlice, KArray, KMap}"
  by (cases k) auto

lemma deref_not_ptr: "Kind (deref t) \<noteq> KPtr"
  using leafKind_not_composite by (induction t) auto

lemma schemaFromType_kind:
  assumes "schemaProvider w (deref t) = None" "\<not> textUnmarshaler w (deref t)"
    "deref t \<notin> {timeType, urlType, ipType, ipAddrType, rawMessageType}"
  shows "schemaFromType cb w r t =
     bind (kindSchema cb w r (deref t) t) (\<lambda>(s, r').
              Done (map_option (scalarNullable (Kind t = KPtr)) s, r'))"
  using assms by (simp add: schemaFromType_def Let_def)

text \<open>
  C8. A type of an unsigned integer kind (\<open>uint\<close>, \<open>uint8\<close> to \<open>uint64\<close>), directly or
  behind pointers, that does not supply its own schema and is not parseable from text:
  the walker returns an integer schema whose minimum is exactly zero. For the signed
  kinds it returns an integer schema with no minimum. Neither calls the registry.
\<close>

theorem unsigned_minimum_zero:
  assumes "schemaProvider w (deref t) = None" and "\<not> textUnmarshaler w (deref t)"
  shows "(Kind (deref t) \<in> {KUint, KUint8, KUint16, KUint32, KUint64} \<longrightarrow>
            (\<exists>s. schemaFromType cb w r t = Done (Some s, r)
                 \<and> Type s = TypeInteger \<and> Minimum s = Some 0))
       \<and> (Kind (deref t) \<in> {KInt, KInt8, KInt16, KInt32, KInt64} \<longrightarrow>
            (\<exists>s. schemaFromType cb w r t = Done (Some s, r)
                 \<and> Type s = TypeInteger \<and> Minimum s = None))"
proof -
  have k: "Kind (deref t) \<in> {KUint, KUint8, KUint16, KUint32, KUint64,
                             KInt, KInt8, KInt16, KInt32, KInt64}
     \<Longrightarrow> deref t \<notin> {timeType, urlType, ipType, ipAddrType, rawMessageType}"
    by (auto simp: special_defs)
  show ?thesis
    using assms k
    by (auto simp: schemaFromType_kind kindSchema_def scalarNullable_def set_defs type_defs
        emptySchema_def)
qed

theorem unsigned_minimum_zero_witness:
  "(\<exists>s. schemaFromType (Schema 0 nodeWorld) nodeWorld exRegistry uint32T
           = Done (Some s, exRegistry)
        \<and> Type s = TypeInteger \<and> Minimum s = Some 0)
   \<and> (\<exists>s. schemaFromType (Schema 0 nodeWorld) nodeWorld exRegistry
             (PtrT (Leaf LInt64 ([], ''int64''))) = Done (Some s, exRegistry)
        \<and> Type s = TypeInteger \<and> Minimum s = None)"
  using unsigned_minimum_zero [of nodeWorld uint32T "Schema 0 nodeWorld" exRegistry]
    unsigned_minimum_zero [of nodeWorld "PtrT (Leaf LInt64 ([], ''int64''))"
      "Schema 0 nodeWorld" exRegistry]
  by (simp add: nodeWorld_def exWorld_def uint32T_def)



lemma exWorld_plain:
  "schemaProvider (exWorld ds) x = None" "\<not> textUnmarshaler (exWorld ds) x"
  "schemaTransformer (exWorld ds) x = None"
  by (simp_all add: exWorld_def)



section \<open>The loop over the fields of a struct\<close>

lemma methodStep_frame:
  "methodStep cb w t flds m st = Done st' \<Longrightarrow>
     props st' = props st \<and> required st' = required st
     \<and> dependentRequiredMap st' = dependentRequiredMap st \<and> fieldSet st' = fieldSet st"
  by (auto simp: methodStep_def bind_Done_iff
      split: list.splits if_splits option.splits prod.splits)

lemma methodLoop_frame:
  "methodLoop cb w t flds ms st = Done st' \<Longrightarrow>
     props st' = props st \<and> required st' = required st
     \<and> dependentRequiredMap st' = dependentRequiredMap st \<and> fieldSet st' = fieldSet st"
proof (induction ms arbitrary: st)
  case Nil
  then show ?case by simp
next
  case (Cons m ms)
  then obtain st1 where 1: "methodStep cb w t flds m st = Done st1"
    and 2: "methodLoop cb w t flds ms st1 = Done st'"
    by (auto simp: bind_Done_iff)
  from methodStep_frame[OF 1] Cons.IH[OF 2] show ?case by simp
qed

text \<open>Every property after a turn of the loop is one from before the turn or the schema
  of the turn's field after \<open>fieldSchemaEdits\<close>.\<close>

lemma emitField_props:
  assumes "emitField cb w t f name rq st1 = Done st'" and "map_of (props st') n = Some fs"
    and "\<And>fs0. P (fieldSchemaEdits f fs0)"
  shows "map_of (props st1) n = Some fs \<or> P fs"
  using assms
  by (auto simp: emitField_def Let_def bind_Done_iff update_conv'
      split: option.splits if_splits)

lemma plainField_props:
  assumes "plainField cb w t f st1 = Done st'" and "map_of (props st') n = Some fs"
    and "\<And>fs0. P (fieldSchemaEdits f fs0)"
  shows "map_of (props st1) n = Some fs \<or> P fs"
  using assms
  by (auto simp: plainField_def bind_Done_iff split: if_splits dest: emitField_props)

lemma fieldStep_props:
  assumes "fieldStep cb w t oriT flds info st = Done st'" and "map_of (props st') n = Some fs"
    and "\<And>fs0. P (fieldSchemaEdits (Field info) fs0)"
  shows "map_of (props st) n = Some fs \<or> P fs"
proof (cases "fName (Field info) \<in> fieldSet st")
  case True
  with assms show ?thesis by (simp add: fieldStep_def Let_def)
next
  case notin: False
  show ?thesis
  proof (cases "TagGet (Field info) ''protobuf_oneof'' \<noteq> []")
    case True
    with assms notin have "methodLoop cb w t flds (methodsOf w oriT) st = Done st'"
      by (simp add: fieldStep_def Let_def)
    from methodLoop_frame[OF this] assms(2) show ?thesis by simp
  next
    case False
    with assms notin have "plainField cb w t (Field info)
        (st\<lparr>fieldSet := insert (fName (Field info)) (fieldSet st)\<rparr>) = Done st'"
      by (simp add: fieldStep_def Let_def)
    from plainField_props[OF this assms(2), of P] assms(3) show ?thesis by simp
  qed
qed

lemma fieldSchemaEdits_not_nullable:
  "Kind (fType f) = KPtr \<Longrightarrow> Contains (TagGet f ''json'') ''omitempty'' \<Longrightarrow>
   TagGet f ''nullable'' \<noteq> ''true'' \<Longrightarrow> \<not> Nullable (fieldSchemaEdits f fs0)"
  by (simp add: fieldSchemaEdits_def set_defs)

text \<open>
  C9. A field whose declared type is a pointer, whose \<open>json\<close> tag contains \<open>omitempty\<close>
  and whose \<open>nullable\<close> tag is not \<open>true\<close> (in particular a field with no such tag):
  after the field's turn of the loop, every property is either one that was there before
  the turn, unchanged, or is not nullable. So the schema that the turn stores for the
  field is not nullable, whatever the registry and the tag edits of the library returned.
\<close>

theorem pointer_omitempty_not_nullable:
  assumes "Kind (fType (Field info)) = KPtr"
    and "Contains (TagGet (Field info) ''json'') ''omitempty''"
    and "TagGet (Field info) ''nullable'' \<noteq> ''true''"
    and "fieldStep cb w t oriT flds info st = Done st'"
  shows "\<forall>name fs. map_of (props st') name = Some fs \<longrightarrow>
            map_of (props st) name = Some fs \<or> \<not> Nullable fs"
  using fieldStep_props[OF assms(4), where P = "\<lambda>fs. \<not> Nullable fs"]
    fieldSchemaEdits_not_nullable[OF assms(1-3)]
  by blast

text \<open>In \<open>Opt\<close> the pointer with \<open>omitempty\<close> is not nullable; the pointer without it
  keeps the default of a scalar behind a pointer.\<close>

lemma opt_example:
  "schemaOf (Schema 2 optWorld exRegistry optT False [])
     = Done (Some (MkSchema ''object'' False [] [] [] None None None None
         [(''nick'', MkSchema ''string'' False [] [] [] None None None None [] [] AddlNil [] []),
          (''age'', MkSchema ''integer'' True ''int32'' [] [] None None None None [] []
                     AddlNil [] [])]
         [''age''] (AddlBool False) [] []))"
  by code_simp

theorem pointer_omitempty_not_nullable_witness:
  "\<exists>st' fs. fieldStep (Schema (Suc 0) optWorld) optWorld optT optT
       [\<lparr>Parent = optT, Field = nickField\<rparr>, \<lparr>Parent = optT, Field = ageField\<rparr>]
       \<lparr>Parent = optT, Field = nickField\<rparr> (initWalk exRegistry) = Done st'
     \<and> map_of (props st') ''nick'' = Some fs \<and> \<not> Nullable fs"
proof -
  have k: "Kind (fType (Field \<lparr>Parent = optT, Field = nickField\<rparr>)) = KPtr"
    by (simp add: nickField_def exField_def)
  have c: "Contains (TagGet (Field \<lparr>Parent = optT, Field = nickField\<rparr>) ''json'') ''omitempty''"
    by code_simp
  have n: "TagGet (Field \<lparr>Parent = optT, Field = nickField\<rparr>) ''nullable'' \<noteq> ''true''"
    by code_simp
  have "\<exists>st'. fieldStep (Schema (Suc 0) optWorld) optWorld optT optT
       [\<lparr>Parent = optT, Field = nickField\<rparr>, \<lparr>Parent = optT, Field = ageField\<rparr>]
       \<lparr>Parent = optT, Field = nickField\<rparr> (initWalk exRegistry) = Done st'
     \<and> map_of (props st') ''nick'' \<noteq> None"
    by (simp add: fieldStep_def plainField_def emitField_def Let_def initWalk_def nickField_def
        exField_def TagGet_def TagLookup_def
        fieldNameRequired_def index_def boolTag_def SchemaFromField_def stringT_def
        exRegistry_def NewRegistry_def getsRef_def origTypeOf_def
        SchemaFromType_def schemaFromType_def special_defs optWorld_def exWorld_def
        kindSchema_def update_conv' TrimSpace_def)
  then obtain st' fs where s: "fieldStep (Schema (Suc 0) optWorld) optWorld optT optT
       [\<lparr>Parent = optT, Field = nickField\<rparr>, \<lparr>Parent = optT, Field = ageField\<rparr>]
       \<lparr>Parent = optT, Field = nickField\<rparr> (initWalk exRegistry) = Done st'"
     and m: "map_of (props st') ''nick'' = Some fs"
    by auto
  from pointer_omitempty_not_nullable[OF k c n s] m have "\<not> Nullable fs"
    by (auto simp: initWalk_def)
  with s m show ?thesis by blast
qed

section \<open>The protobuf name of a field\<close>

lemma HasPrefix_iff: "HasPrefix s p \<longleftrightarrow> (\<exists>rest. s = p @ rest)"
  unfolding HasPrefix_def by (metis append_eq_conv_conj append_take_drop_id)

lemma comma_not_alnum: "\<not> isAlnum CHR '',''"
  by (simp add: isAlnum_def)

lemma matchNameAt_Some:
  assumes "matchNameAt s = Some g"
  shows "g \<noteq> [] \<and> (\<forall>c \<in> set g. isAlnum c) \<and> (\<exists>post. s = ''name='' @ g @ '','' @ post)"
proof -
  from assms have hp: "HasPrefix s ''name=''"
    by (auto simp: matchNameAt_def split: if_splits)
  then obtain rest where s: "s = ''name='' @ rest"
    using HasPrefix_iff by blast
  have rest: "drop 5 s = rest" using s by simp
  from assms hp rest have g: "g = takeWhile isAlnum rest" "g \<noteq> []"
    "HasPrefix (dropWhile isAlnum rest) '',''"
    by (auto simp: matchNameAt_def Let_def split: if_splits)
  from g(3) obtain post where "dropWhile isAlnum rest = '','' @ post"
    using HasPrefix_iff by blast
  with g(1) have "rest = g @ '','' @ post"
    using takeWhile_dropWhile_id[of isAlnum rest] by simp
  moreover have "\<forall>c \<in> set g. isAlnum c"
    using g(1) by (auto dest: set_takeWhileD)
  ultimately show ?thesis using g(2) s by blast
qed

lemma matchNameAt_intro:
  assumes "g \<noteq> []" and "\<forall>c \<in> set g. isAlnum c"
  shows "matchNameAt (''name='' @ g @ '','' @ post) = Some g"
proof -
  have t: "takeWhile isAlnum (g @ CHR '','' # post) = g"
    using assms(2) comma_not_alnum by (simp add: takeWhile_tail)
  have d: "dropWhile isAlnum (g @ CHR '','' # post) = CHR '','' # post"
    using assms(2) comma_not_alnum by (simp add: dropWhile_append3)
  show ?thesis
    using assms(1) t d by (simp add: matchNameAt_def HasPrefix_def)
qed

lemma lastNameMatch_Some:
  "lastNameMatch j = Some g \<Longrightarrow>
     g \<noteq> [] \<and> (\<forall>c \<in> set g. isAlnum c) \<and> (\<exists>pre post. j = pre @ ''name='' @ g @ '','' @ post)"
proof (induction j)
  case Nil
  then show ?case by simp
next
  case (Cons c cs)
  show ?case
  proof (cases "lastNameMatch cs")
    case None
    with Cons.prems have "matchNameAt (c # cs) = Some g" by simp
    from matchNameAt_Some[OF this] show ?thesis by (metis append_Nil)
  next
    case (Some g')
    with Cons.prems have "g' = g" by simp
    with Some Cons.IH obtain pre post where "g \<noteq> []" "\<forall>c \<in> set g. isAlnum c"
      "cs = pre @ ''name='' @ g @ '','' @ post" by blast
    then show ?thesis by (metis append_Cons)
  qed
qed

lemma lastNameMatch_append:
  "matchNameAt s \<noteq> None \<Longrightarrow> lastNameMatch (pre @ s) \<noteq> None"
proof (induction pre)
  case Nil
  then show ?case by (cases s) (auto simp: matchNameAt_def HasPrefix_def split: option.splits)
next
  case (Cons a pre)
  then show ?case by (auto split: option.splits)
qed

lemma lastNameMatch_pattern:
  "lastNameMatch j \<noteq> None \<longleftrightarrow>
     (\<exists>pre g post. j = pre @ ''name='' @ g @ '','' @ post \<and> g \<noteq> [] \<and> (\<forall>c \<in> set g. isAlnum c))"
proof
  assume "lastNameMatch j \<noteq> None"
  then obtain g where "lastNameMatch j = Some g" by auto
  from lastNameMatch_Some[OF this]
  show "\<exists>pre g post. j = pre @ ''name='' @ g @ '','' @ post \<and> g \<noteq> [] \<and> (\<forall>c \<in> set g. isAlnum c)"
    by blast
next
  assume "\<exists>pre g post. j = pre @ ''name='' @ g @ '','' @ post \<and> g \<noteq> [] \<and> (\<forall>c \<in> set g. isAlnum c)"
  then obtain pre g post where j: "j = pre @ (''name='' @ g @ '','' @ post)"
    and g: "g \<noteq> []" "\<forall>c \<in> set g. isAlnum c"
    by auto
  from matchNameAt_intro[OF g] have "matchNameAt (''name='' @ g @ '','' @ post) \<noteq> None" by simp
  from lastNameMatch_append[OF this] j show "lastNameMatch j \<noteq> None" by simp
qed

lemma FindStringSubmatch_pattern:
  "FindStringSubmatch j = [] \<longleftrightarrow> \<not> protobufNamePattern j"
proof -
  have "FindStringSubmatch j = [] \<longleftrightarrow> CHR 0x0A \<in> set j \<or> lastNameMatch j = None"
    by (simp add: FindStringSubmatch_def split: option.splits)
  also have "\<dots> \<longleftrightarrow> \<not> protobufNamePattern j"
    unfolding protobufNamePattern_def lastNameMatch_pattern[symmetric] by auto
  finally show ?thesis .
qed

text \<open>
  C10. A field with a non-empty \<open>protobuf\<close> tag. When the tag matches the pattern, the
  field's name is a non-empty run of letters and digits that stands in the tag between
  \<open>name=\<close> and a comma. When it does not (no \<open>name=\<close>, a name with an underscore, no
  comma after the name, a newline), the index into the nil result of
  \<open>FindStringSubmatch\<close> panics: the name is not taken from the declaration, and the turn
  of the loop for such a field, unless the field is shadowed or a union discriminator,
  ends the derivation with that panic.
\<close>

theorem protobuf_name_unchecked:
  assumes "TagGet f ''protobuf'' \<noteq> []"
  shows "(protobufNamePattern (TagGet f ''protobuf'') \<longrightarrow>
           (\<exists>g. fieldNameRequired f
                   = Done (g, \<not> (''oneof'' \<in> set (SplitComma (TagGet f ''protobuf''))))
              \<and> g \<noteq> [] \<and> (\<forall>c \<in> set g. isAlnum c)
              \<and> (\<exists>pre post. TagGet f ''protobuf'' = pre @ ''name='' @ g @ '','' @ post)))
       \<and> (\<not> protobufNamePattern (TagGet f ''protobuf'') \<longrightarrow>
           fieldNameRequired f = Panic IndexOutOfRange
           \<and> (\<forall>cb w t oriT flds info st.
                 Field info = f \<and> fName f \<notin> fieldSet st \<and> TagGet f ''protobuf_oneof'' = []
                 \<longrightarrow> fieldStep cb w t oriT flds info st = Panic IndexOutOfRange))"
proof (cases "protobufNamePattern (TagGet f ''protobuf'')")
  case True
  then have ne: "FindStringSubmatch (TagGet f ''protobuf'') \<noteq> []"
    using FindStringSubmatch_pattern by blast
  then obtain g where l: "lastNameMatch (TagGet f ''protobuf'') = Some g"
    and fs: "FindStringSubmatch (TagGet f ''protobuf'') = [TagGet f ''protobuf'', g]"
    by (auto simp: FindStringSubmatch_def split: if_splits option.splits)
  from lastNameMatch_Some[OF l] have g: "g \<noteq> []" "\<forall>c \<in> set g. isAlnum c"
    "\<exists>pre post. TagGet f ''protobuf'' = pre @ ''name='' @ g @ '','' @ post"
    by blast+
  have "fieldNameRequired f = Done (g, \<not> (''oneof'' \<in> set (SplitComma (TagGet f ''protobuf''))))"
    using assms fs g(1) by (simp add: fieldNameRequired_def index_def)
  with g True show ?thesis by blast
next
  case False
  then have e: "FindStringSubmatch (TagGet f ''protobuf'') = []"
    using FindStringSubmatch_pattern by blast
  have p: "fieldNameRequired f = Panic IndexOutOfRange"
    using assms e by (simp add: fieldNameRequired_def index_def)
  then show ?thesis
    using False by (simp add: fieldStep_def plainField_def Let_def)
qed


text \<open>The derivation of \<open>Proto\<close> panics at the field \<open>UserId\<close>.\<close>

lemma proto_example:
  "schemaOf (Schema 2 protoWorld exRegistry protoT False []) = Panic IndexOutOfRange"
  by code_simp

theorem protobuf_name_unchecked_witness:
  "fieldNameRequired titleField = Done (''title'', True)
   \<and> fieldNameRequired userIdField = Panic IndexOutOfRange
   \<and> fieldStep (Schema (Suc 0) protoWorld) protoWorld protoT protoT
        [\<lparr>Parent = protoT, Field = titleField\<rparr>, \<lparr>Parent = protoT, Field = userIdField\<rparr>]
        \<lparr>Parent = protoT, Field = userIdField\<rparr> (initWalk exRegistry) = Panic IndexOutOfRange"
proof -
  have t: "TagGet titleField ''protobuf'' \<noteq> []" and u: "TagGet userIdField ''protobuf'' \<noteq> []"
    by code_simp+
  have "FindStringSubmatch (TagGet userIdField ''protobuf'') = []"
    by code_simp
  then have nu: "\<not> protobufNamePattern (TagGet userIdField ''protobuf'')"
    using FindStringSubmatch_pattern by blast
  have "FindStringSubmatch (TagGet titleField ''protobuf'') \<noteq> []"
    by code_simp
  then have pt: "protobufNamePattern (TagGet titleField ''protobuf'')"
    using FindStringSubmatch_pattern by blast
  have o: "TagGet userIdField ''protobuf_oneof'' = []" "fName userIdField \<notin> fieldSet (initWalk exRegistry)"
    by (simp_all add: userIdField_def exField_def TagGet_def TagLookup_def initWalk_def)
  have e: "fieldNameRequired titleField = Done (''title'', True)"
    by code_simp
  from protobuf_name_unchecked[OF t] pt e
  have 1: "fieldNameRequired titleField = Done (''title'', True)"
    by simp
  from protobuf_name_unchecked[OF u] nu o
  have 2: "fieldNameRequired userIdField = Panic IndexOutOfRange
     \<and> fieldStep (Schema (Suc 0) protoWorld) protoWorld protoT protoT
        [\<lparr>Parent = protoT, Field = titleField\<rparr>, \<lparr>Parent = protoT, Field = userIdField\<rparr>]
        \<lparr>Parent = protoT, Field = userIdField\<rparr> (initWalk exRegistry) = Panic IndexOutOfRange"
    by simp
  from 1 2 show ?thesis by simp
qed

section \<open>The check of the dependent fields\<close>







text \<open>In \<open>Dep\<close> three dependents are missing, of two fields; all three are reported, in
  the order of the sorted field names.\<close>

lemma dep_example:
  "schemaOf (Schema 2 depWorld exRegistry depT False [])
     = Panic (DependentMissing (dependentMessage ''unit'' ''area'' @ ''; ''
         @ dependentMessage ''kind'' ''code'' @ ''; '' @ dependentMessage ''zone'' ''code''))"
  by code_simp


section \<open>Tagged unions\<close>










lemma structFinish_result:
  assumes "structFinish w t st = Done (x, r')"
  shows "\<exists>s. x = Some s \<and> Type s = TypeObject \<and> OneOf s = oneOf st
           \<and> Properties s = props st \<and> Required s = required st
           \<and> DependentRequired s = dependentRequiredMap st
           \<and> (ignoreAdditionalProperties st \<longrightarrow> AdditionalProperties s = AddlNil)
           \<and> r' = reg st"
  using assms
  by (auto simp: structFinish_def Let_def bind_Done_iff set_defs emptySchema_def
      split: if_splits option.splits)






section \<open>The registry only grows\<close>

lemma grows_refl: "grows r r"
  by (simp add: grows_def)

lemma grows_trans:
  assumes "grows a b" and "grows b c"
  shows "grows a c"
proof -
  from assms have "dom (schemas a) \<subseteq> dom (schemas c)" "dom (seen a) \<subseteq> dom (seen c)"
    unfolding grows_def by blast+
  with assms show ?thesis unfolding grows_def by simp
qed

lemma cbGrowsD: "cbGrows cb \<Longrightarrow> cb r t a h = Done (x, r') \<Longrightarrow> grows r r'"
  unfolding cbGrows_def by blast

lemma SchemaFromField_grows:
  assumes "cbGrows cb" and "SchemaFromField cb w r f h = Done (x, r')"
  shows "grows r r'"
proof -
  from assms(2) obtain fs r1 where c: "cb r (fType f) True h = Done (fs, r1)"
    and k: "(case fs of None \<Rightarrow> Done (None, r1)
             | Some s \<Rightarrow> (case fieldTagEdits w r1 f s of Inl e \<Rightarrow> Panic e
                           | Inr s' \<Rightarrow> Done (Some s', r1))) = Done (x, r')"
    by (auto simp: SchemaFromField_def bind_Done_iff)
  from k have "r1 = r'" by (auto split: option.splits sum.splits)
  with cbGrowsD[OF assms(1) c] show ?thesis by simp
qed

lemma methodStep_cases:
  "methodStep cb w t flds m st = Done st' \<Longrightarrow>
     st' = st
     \<or> (\<exists>cft fs. cb (reg st) cft True (Name t @ Name cft @ ''Struct'') = Done (fs, reg st'))"
  by (auto simp: methodStep_def bind_Done_iff split: list.splits if_splits option.splits)

lemma methodStep_grows:
  assumes "cbGrows cb" and "methodStep cb w t flds m st = Done st'"
  shows "grows (reg st) (reg st')"
  using methodStep_cases[OF assms(2)] cbGrowsD[OF assms(1)] grows_refl by metis

lemma methodLoop_grows:
  "cbGrows cb \<Longrightarrow> methodLoop cb w t flds ms st = Done st' \<Longrightarrow> grows (reg st) (reg st')"
proof (induction ms arbitrary: st)
  case Nil
  then show ?case by (simp add: grows_refl)
next
  case (Cons m ms)
  then obtain st1 where 1: "methodStep cb w t flds m st = Done st1"
    and 2: "methodLoop cb w t flds ms st1 = Done st'"
    by (auto simp: bind_Done_iff)
  from methodStep_grows[OF Cons.prems(1) 1] Cons.IH[OF Cons.prems(1) 2]
  show ?case by (rule grows_trans)
qed

lemma emitField_reg:
  "emitField cb w t f name rq st1 = Done st' \<Longrightarrow>
     \<exists>fs. SchemaFromField cb w (reg st1) f (Name t @ fName f @ ''Struct'') = Done (fs, reg st')"
  by (auto simp: emitField_def Let_def bind_Done_iff split: option.splits if_splits)

lemma emitField_grows:
  assumes "cbGrows cb" and "emitField cb w t f name rq st1 = Done st'"
  shows "grows (reg st1) (reg st')"
  using emitField_reg[OF assms(2)] SchemaFromField_grows[OF assms(1)] by blast

lemma plainField_reg:
  "plainField cb w t f st1 = Done st' \<Longrightarrow>
     st' = st1 \<or> (\<exists>name rq. emitField cb w t f name rq st1 = Done st')"
  by (auto simp: plainField_def bind_Done_iff split: if_splits)

lemma plainField_grows:
  assumes "cbGrows cb" and "plainField cb w t f st1 = Done st'"
  shows "grows (reg st1) (reg st')"
  using plainField_reg[OF assms(2)] emitField_grows[OF assms(1)] grows_refl by metis

lemma fieldStep_cases:
  "fieldStep cb w t oriT flds info st = Done st' \<Longrightarrow>
     st' = st \<or> methodLoop cb w t flds (methodsOf w oriT) st = Done st'
     \<or> plainField cb w t (Field info)
          (st\<lparr>fieldSet := insert (fName (Field info)) (fieldSet st)\<rparr>) = Done st'"
  by (auto simp: fieldStep_def Let_def split: if_splits)

lemma fieldStep_grows:
  assumes "cbGrows cb" and "fieldStep cb w t oriT flds info st = Done st'"
  shows "grows (reg st) (reg st')"
proof -
  from fieldStep_cases[OF assms(2)] consider "st' = st"
    | "methodLoop cb w t flds (methodsOf w oriT) st = Done st'"
    | "plainField cb w t (Field info)
          (st\<lparr>fieldSet := insert (fName (Field info)) (fieldSet st)\<rparr>) = Done st'"
    by blast
  then show ?thesis
  proof cases
    case 1
    then show ?thesis by (simp add: grows_refl)
  next
    case 2
    from methodLoop_grows[OF assms(1) this] show ?thesis .
  next
    case 3
    from plainField_grows[OF assms(1) this] show ?thesis by simp
  qed
qed

lemma fieldLoop_grows:
  "cbGrows cb \<Longrightarrow> fieldLoop cb w t oriT flds xs st = Done st' \<Longrightarrow>
     grows (reg st) (reg st')"
proof (induction xs arbitrary: st)
  case Nil
  then show ?case by (simp add: grows_refl)
next
  case (Cons x xs)
  then obtain st1 where 1: "fieldStep cb w t oriT flds x st = Done st1"
    and 2: "fieldLoop cb w t oriT flds xs st1 = Done st'"
    by (auto simp: bind_Done_iff)
  from fieldStep_grows[OF Cons.prems(1) 1] Cons.IH[OF Cons.prems(1) 2]
  show ?case by (rule grows_trans)
qed

lemma structSchema_grows:
  assumes "cbGrows cb" and "structSchema cb w r t oriT = Done (x, r')"
  shows "grows r r'"
proof -
  from assms(2) obtain flds vis st where
    l: "fieldLoop cb w t oriT flds flds (initWalk r) = Done st"
    and f: "structFinish w t st = Done (x, r')"
    by (auto simp: structSchema_def bind_Done_iff split: option.splits)
  from structFinish_result[OF f] have "r' = reg st" by blast
  with fieldLoop_grows[OF assms(1) l] show ?thesis by (simp add: initWalk_def)
qed

lemma sliceSchema_cases:
  "sliceSchema cb r t = Done (x, r') \<Longrightarrow>
     r' = r \<or> (\<exists>items. cb r (Elem t) True (Name t @ ''Item'') = Done (items, r'))"
  by (cases "Kind (Elem t) = KUint8") (auto simp: sliceSchema_def bind_Done_iff Let_def)

lemma sliceSchema_grows:
  assumes "cbGrows cb" and "sliceSchema cb r t = Done (x, r')"
  shows "grows r r'"
  using sliceSchema_cases[OF assms(2)] cbGrowsD[OF assms(1)] grows_refl by metis

lemma kindSchema_cases:
  "kindSchema cb w r t oriT = Done (x, r') \<Longrightarrow>
     r' = r \<or> sliceSchema cb r t = Done (x, r') \<or> structSchema cb w r t oriT = Done (x, r')
     \<or> (\<exists>e. cb r (Elem t) True (Name t @ ''Value'') = Done (e, r'))"
  by (cases "Kind t") (auto simp: kindSchema_def bind_Done_iff)

lemma kindSchema_grows:
  assumes "cbGrows cb" and "kindSchema cb w r t oriT = Done (x, r')"
  shows "grows r r'"
  using kindSchema_cases[OF assms(2)] cbGrowsD[OF assms(1)] grows_refl
    sliceSchema_grows[OF assms(1)] structSchema_grows[OF assms(1)] by metis

lemma schemaFromType_cases:
  "schemaFromType cb w r t = Done (x, r') \<Longrightarrow>
     r' = r \<or> (\<exists>s. kindSchema cb w r (deref t) t = Done (s, r'))"
  by (auto simp: schemaFromType_def Let_def bind_Done_iff split: option.splits if_splits)

lemma schemaFromType_grows:
  assumes "cbGrows cb" and "schemaFromType cb w r t = Done (x, r')"
  shows "grows r r'"
  using schemaFromType_cases[OF assms(2)] kindSchema_grows[OF assms(1)] grows_refl by metis

lemma SchemaFromType_cases:
  "SchemaFromType cb w r t = Done (x, r') \<Longrightarrow> \<exists>s. schemaFromType cb w r t = Done (s, r')"
  by (auto simp: SchemaFromType_def bind_Done_iff split: option.splits)

lemma SchemaFromType_grows:
  assumes "cbGrows cb" and "SchemaFromType cb w r t = Done (x, r')"
  shows "grows r r'"
  using SchemaFromType_cases[OF assms(2)] schemaFromType_grows[OF assms(1)] by blast

lemma grows_register: "grows r (register r name t)"
  by (auto simp: grows_def register_def)

lemma grows_store: "grows r r2 \<Longrightarrow> grows r (r2\<lparr>schemas := (schemas r2)(name \<mapsto> s)\<rparr>)"
  by (auto simp: grows_def)

lemma Schema_cbGrows: "cbGrows (Schema n w)"
proof (induction n)
  case 0
  then show ?case by (simp add: cbGrows_def)
next
  case (Suc n)
  have cb: "cbGrows (\<lambda>r' t' a' h'. Schema n w r' t' a' h')" using Suc by simp
  show ?case
    unfolding cbGrows_def
  proof (intro allI impI)
    fix r t0 a h x r'
    assume s: "Schema (Suc n) w r t0 a h = Done (x, r')"
    show "grows r r'"
    proof (cases "aliases r (deref t0)")
      case (Some al)
      with s have "Schema n w r al a h = Done (x, r')" by simp
      with Suc show ?thesis by (auto dest: cbGrowsD)
    next
      case None
      let ?name = "namer r (origTypeOf t0) h"
      show ?thesis
      proof (cases "if getsRef w (deref t0) then schemas r ?name else None")
        case (Some s0)
        with s None have "r' = r" by (auto simp: Let_def split: if_splits)
        then show ?thesis by (simp add: grows_refl)
      next
        case miss: None
        with s None obtain s1 r2 where
          w: "SchemaFromType (\<lambda>r' t' a' h'. Schema n w r' t' a' h') w
                (if getsRef w (deref t0) then register r ?name (deref t0) else r)
                (origTypeOf t0) = Done (s1, r2)"
          and r': "r' = (if getsRef w (deref t0) then r2\<lparr>schemas := (schemas r2)(?name \<mapsto> s1)\<rparr>
                        else r2)"
          by (auto simp: Let_def bind_Done_iff split: if_splits)
        from SchemaFromType_grows[OF cb w] have "grows r r2"
          by (auto split: if_splits intro: grows_trans[OF grows_register])
        with r' show ?thesis by (auto intro: grows_store)
      qed
    qed
  qed
qed

lemma Schema_grows: "Schema n w r t a h = Done (x, r') \<Longrightarrow> grows r r'"
  using Schema_cbGrows cbGrowsD by blast

section \<open>Names and references\<close>

lemma SchemaFromRef_own:
  "SchemaFromRef r (prefix r @ name) = (case schemas r name of None \<Rightarrow> None | Some s \<Rightarrow> s)"
  by (simp add: SchemaFromRef_def HasPrefix_def)

text \<open>A name that is taken. When the type has been seen, under whatever name, the
  registry answers from the cache; the type that is registered under the name is not
  looked at. When the type has never been seen, the registry panics.\<close>

lemma Schema_cache_hit:
  assumes "aliases r (deref t) = None" and "getsRef w (deref t)"
    and "schemas r (namer r (origTypeOf t) h) = Some s" and "seen r (deref t) \<noteq> None"
  shows "Schema (Suc n) w r t a h
     = Done (if a then Some (refSchema (prefix r @ namer r (origTypeOf t) h)) else s, r)"
  using assms by (simp add: Let_def)

lemma Schema_duplicate_panics:
  assumes "aliases r (deref t) = None" and "getsRef w (deref t)"
    and "schemas r (namer r (origTypeOf t) h) \<noteq> None" and "seen r (deref t) = None"
  shows "Schema (Suc n) w r t a h
     = Panic (DuplicateName (namer r (origTypeOf t) h) (deref t)
                (types r (namer r (origTypeOf t) h)))"
  using assms by (auto simp: Let_def)

lemma Schema_registers:
  assumes "aliases r (deref t) = None" and "getsRef w (deref t)"
    and "Schema n w r t a h = Done (x, r1)"
  shows "schemas r1 (namer r (origTypeOf t) h) \<noteq> None \<and> seen r1 (deref t) \<noteq> None
     \<and> (a \<longrightarrow> x = Some (refSchema (prefix r @ namer r (origTypeOf t) h)))"
proof (cases n)
  case 0
  with assms(3) show ?thesis by simp
next
  case (Suc n')
  let ?name = "namer r (origTypeOf t) h"
  show ?thesis
  proof (cases "schemas r ?name")
    case (Some s0)
    with assms Suc show ?thesis by (auto simp: Let_def split: if_splits)
  next
    case None
    with assms Suc obtain s1 r2 where
      w: "SchemaFromType (\<lambda>r' t' a' h'. Schema n' w r' t' a' h') w
             (register r ?name (deref t)) (origTypeOf t) = Done (s1, r2)"
      and r1: "r1 = r2\<lparr>schemas := (schemas r2)(?name \<mapsto> s1)\<rparr>"
      and x: "a \<longrightarrow> x = Some (refSchema (prefix r @ ?name))"
      by (auto simp: Let_def bind_Done_iff split: if_splits)
    have "cbGrows (\<lambda>r' t' a' h'. Schema n' w r' t' a' h')"
      using Schema_cbGrows[of n' w] by simp
    from SchemaFromType_grows[OF this w] have "dom (seen (register r ?name (deref t))) \<subseteq> dom (seen r2)"
      by (simp add: grows_def)
    then have "seen r2 (deref t) \<noteq> None" by (auto simp: register_def)
    with r1 x show ?thesis by simp
  qed
qed

text \<open>
  C4. A type for which no alias is registered and that gets a reference (a struct that is
  not the time type, does not supply its own schema and is not parseable from text).
  When \<open>Schema\<close> with \<open>allowRef\<close> returns for it, the result is the reference node
  whose reference string is the prefix followed by the name. Every later call with the same
  type and hint, with any fuel, leaves the registry as it is: with \<open>allowRef\<close> it returns
  the same reference node, and without \<open>allowRef\<close> it returns what \<open>SchemaFromRef\<close>
  returns for that reference string, the node registered under the name.
\<close>

theorem reference_round_trip:
  assumes "aliases r (deref t) = None" and "getsRef w (deref t)"
    and "Schema n w r t True hint = Done (x, r1)"
  shows "x = Some (refSchema (prefix r @ namer r (origTypeOf t) hint))
       \<and> Ref (refSchema (prefix r @ namer r (origTypeOf t) hint))
           = prefix r @ namer r (origTypeOf t) hint
       \<and> (\<forall>m. Schema (Suc m) w r1 t True hint = Done (x, r1))
       \<and> (\<forall>m. Schema (Suc m) w r1 t False hint
                = Done (SchemaFromRef r1 (prefix r @ namer r (origTypeOf t) hint), r1))
       \<and> schemas r1 (namer r (origTypeOf t) hint) \<noteq> None"
proof -
  let ?name = "namer r (origTypeOf t) hint"
  from Schema_registers[OF assms] obtain s where
    s: "schemas r1 ?name = Some s" and sn: "seen r1 (deref t) \<noteq> None"
    and x: "x = Some (refSchema (prefix r @ ?name))"
    by auto
  from Schema_grows[OF assms(3)] have g: "prefix r1 = prefix r" "namer r1 = namer r"
    "aliases r1 = aliases r" by (simp_all add: grows_def)
  have a1: "aliases r1 (deref t) = None" using g assms(1) by simp
  have s1: "schemas r1 (namer r1 (origTypeOf t) hint) = Some s" using g s by simp
  have "Schema (Suc m) w r1 t a hint
          = Done (if a then Some (refSchema (prefix r @ ?name)) else s, r1)" for m a
    using Schema_cache_hit[OF a1 assms(2) s1 sn, of m a] g by simp
  moreover have "SchemaFromRef r1 (prefix r @ ?name) = s"
    using SchemaFromRef_own[of r1 ?name] g s by simp
  moreover have "Ref (refSchema (prefix r @ ?name)) = prefix r @ ?name"
    by (simp add: refSchema_def set_defs)
  ultimately show ?thesis using x s by simp
qed

theorem reference_round_trip_witness:
  "schemaOf (Schema 3 nodeWorld exRegistry nodeT True [])
     = Done (Some (refSchema ''#/components/schemas/Node''))
   \<and> Schema (Suc 0) nodeWorld nodeRegistry nodeT True []
     = Done (Some (refSchema ''#/components/schemas/Node''), nodeRegistry)
   \<and> Schema (Suc 0) nodeWorld nodeRegistry nodeT False []
     = Done (SchemaFromRef nodeRegistry ''#/components/schemas/Node'', nodeRegistry)
   \<and> SchemaFromRef nodeRegistry ''#/components/schemas/Node''
     = Some (MkSchema ''object'' False [] [] [] None None None None
         [(''next'', MkSchema [] False [] [] ''#/components/schemas/Node'' None None None None
                      [] [] AddlNil [] []),
          (''Val'', MkSchema ''integer'' False ''int32'' [] [] None None None (Some 0)
                      [] [] AddlNil [] [])]
         [''Val''] (AddlBool False) [] [])"
proof -
  have "case Schema 3 nodeWorld exRegistry nodeT True [] of Done p \<Rightarrow> True | _ \<Rightarrow> False"
    by code_simp
  then obtain x r1 where d: "Schema 3 nodeWorld exRegistry nodeT True [] = Done (x, r1)"
    by (cases "Schema 3 nodeWorld exRegistry nodeT True []") auto
  then have r1: "nodeRegistry = r1" by (simp add: nodeRegistry_def)
  have a: "aliases exRegistry (deref nodeT) = None"
    by (simp add: exRegistry_def NewRegistry_def)
  have g: "getsRef nodeWorld (deref nodeT)"
    by (simp add: getsRef_def nodeT_def nodeWorld_def exWorld_plain timeType_def)
  have n: "prefix exRegistry @ namer exRegistry (origTypeOf nodeT) [] = ''#/components/schemas/Node''"
    by code_simp
  have f: "SchemaFromRef nodeRegistry ''#/components/schemas/Node''
     = Some (MkSchema ''object'' False [] [] [] None None None None
         [(''next'', MkSchema [] False [] [] ''#/components/schemas/Node'' None None None None
                      [] [] AddlNil [] []),
          (''Val'', MkSchema ''integer'' False ''int32'' [] [] None None None (Some 0)
                      [] [] AddlNil [] [])]
         [''Val''] (AddlBool False) [] [])"
    by code_simp
  from reference_round_trip[OF a g d] show ?thesis
    unfolding n r1[symmetric] using d f by (simp add: schemaOf_def r1)
qed

text \<open>
  C2, at the failing input. The two anonymous struct types are distinct and the naming
  function gives both the name \<open>Item\<close> under the hint \<open>Item\<close>. Asked for the second type
  right after the first, the registry panics with the duplicate name. Asked for the second
  type under another hint in between, the registry has seen the second type, and the last
  call does not panic: it returns the schema of the first type.
\<close>

theorem duplicate_name_missed:
  "schemaOf (collisionRun False) = Panic (DuplicateName ''Item'' anonB (Some anonA))
   \<and> schemaOf (collisionRun True)
     = Done (Some (MkSchema ''object'' False [] [] [] None None None None
         [(''X'', MkSchema ''string'' False [] [] [] None None None None [] [] AddlNil [] [])]
         [''X''] (AddlBool False) [] []))
   \<and> anonA \<noteq> anonB
   \<and> exNamer anonA ''Item'' = exNamer anonB ''Item''"
  by code_simp

section \<open>The derivation returns\<close>

subsection \<open>The fuel of getFields suffices\<close>






subsection \<open>The types and hints of a derivation are closed\<close>


















lemma tsize_deref: "tsize (deref t) \<le> tsize t"
  by (induction t) simp_all




lemma tsize_origTypeOf: "tsize (origTypeOf t) \<le> tsize t"
  by (simp add: origTypeOf_def tsize_deref)


subsection \<open>No step of the walker runs out of fuel before its callback does\<close>


















subsection \<open>Enough fuel\<close>









end
